theory Spec2Isabelle
  imports Complex_Main
begin

section \<open>The EMA crossover signal\<close>

text \<open>
  The backend (\<^verbatim>\<open>backend/server.py\<close>) derives a trading signal from two exponential
  moving averages. Python floats are modelled as real numbers throughout: a NaN or an
  infinity has no counterpart here, and rounding of float arithmetic is not modelled.
  Signals are the strings the source returns.

  \<^verbatim>\<open>
  def get_trading_signal(ema9, ema21, prev_ema9, prev_ema21) -> str:
      current_signal = "BUY" if ema9 > ema21 else "SELL"
      prev_signal = "BUY" if prev_ema9 > prev_ema21 else "SELL"
      if current_signal == "BUY" and prev_signal == "SELL":
          return "STRONG_BUY"
      elif current_signal == "SELL" and prev_signal == "BUY":
          return "STRONG_SELL"
      else:
          return current_signal
  \<close>
\<close>

definition get_trading_signal :: "real \<Rightarrow> real \<Rightarrow> real \<Rightarrow> real \<Rightarrow> string" where
  "get_trading_signal ema9 ema21 prev_ema9 prev_ema21 =
     (let current_signal = (if ema9 > ema21 then ''BUY'' else ''SELL'');
          prev_signal = (if prev_ema9 > prev_ema21 then ''BUY'' else ''SELL'')
      in if current_signal = ''BUY'' \<and> prev_signal = ''SELL'' then ''STRONG_BUY''
         else if current_signal = ''SELL'' \<and> prev_signal = ''BUY'' then ''STRONG_SELL''
         else current_signal)"

section \<open>The EMA calculation\<close>

text \<open>
  \<^verbatim>\<open>
  def calculate_ema(prices: List[float], period: int) -> List[float]:
      if len(prices) < period:
          return [0] * len(prices)
      prices_series = pd.Series(prices)
      ema = prices_series.ewm(span=period).mean()
      return ema.tolist()
  \<close>
  The guard is the repository's own code. The smoothing is pandas', an external library:
  \<^verbatim>\<open>Series.ewm(span=period).mean()\<close> with the library's default arguments
  (\<^verbatim>\<open>adjust=True\<close>, \<^verbatim>\<open>ignore_na=False\<close>, \<^verbatim>\<open>min_periods=0\<close>). Its documented
  behaviour on a series without NaN is written out below, following the library's own
  loop: the span is turned into a centre of mass (a span below 1 raises
  \<^verbatim>\<open>ValueError\<close>), \<^verbatim>\<open>alpha = 1 / (1 + com)\<close>, and every value is the
  weighted mean of the values so far, the weight of an older value shrinking by
  \<^verbatim>\<open>1 - alpha\<close> per step.
\<close>

datatype py_exception = ValueError | WebSocketDisconnect | RuntimeError

text \<open>
  \<^verbatim>\<open>
  if span < 1: raise ValueError("span must satisfy: span >= 1")
  comass = (span - 1) / 2
  \<close>
\<close>

definition get_center_of_mass :: "int \<Rightarrow> py_exception + real" where
  "get_center_of_mass span' =
     (if span' < 1 then Inl ValueError else Inr ((real_of_int span' - 1) / 2))"

text \<open>
  The body of the library's loop, for the values after the first:
  \<^verbatim>\<open>
  old_wt *= old_wt_factor
  if weighted != cur:
      weighted = old_wt * weighted + new_wt * cur
      weighted /= (old_wt + new_wt)
  old_wt += new_wt          # adjust=True, where new_wt = 1
  output[i] = weighted
  \<close>
\<close>

fun ewm_loop :: "real \<Rightarrow> real \<Rightarrow> real \<Rightarrow> real list \<Rightarrow> real list" where
  "ewm_loop old_wt_factor weighted old_wt [] = []"
| "ewm_loop old_wt_factor weighted old_wt (cur # vals) =
     (let old_wt1 = old_wt * old_wt_factor;
          weighted1 = (if weighted \<noteq> cur
                       then (old_wt1 * weighted + 1 * cur) / (old_wt1 + 1)
                       else weighted);
          old_wt2 = old_wt1 + 1
      in weighted1 # ewm_loop old_wt_factor weighted1 old_wt2 vals)"

definition ewm_mean :: "real list \<Rightarrow> int \<Rightarrow> py_exception + real list" where
  "ewm_mean vals span' =
     (case get_center_of_mass span' of
        Inl e \<Rightarrow> Inl e
      | Inr com \<Rightarrow>
          (let alpha = 1 / (1 + com); old_wt_factor = 1 - alpha
           in case vals of
                [] \<Rightarrow> Inr []
              | v # rest \<Rightarrow> Inr (v # ewm_loop old_wt_factor v 1 rest)))"

definition calculate_ema :: "real list \<Rightarrow> int \<Rightarrow> py_exception + real list" where
  "calculate_ema prices period =
     (if int (length prices) < period then Inr (replicate (length prices) 0)
      else ewm_mean prices period)"

section \<open>The mock market data\<close>

text \<open>
  \<^verbatim>\<open>
  class CoinData(BaseModel):
      symbol: str
      price: float
      change_24h: float
      volume_24h: float
      ema9: Optional[float] = None
      ema21: Optional[float] = None
      signal: Optional[str] = None
  \<close>
\<close>

record CoinData =
  symbol :: string
  price :: real
  change_24h :: real
  volume_24h :: real
  ema9 :: "real option"
  ema21 :: "real option"
  signal :: "string option"

definition MOCK_COINS :: "string list" where
  "MOCK_COINS =
     [''BTCUSDT'', ''ETHUSDT'', ''BNBUSDT'', ''ADAUSDT'', ''SOLUSDT'',
      ''XRPUSDT'', ''DOTUSDT'', ''DOGEUSDT'', ''AVAXUSDT'', ''LUNAUSDT'']"

text \<open>
  Python's \<^verbatim>\<open>random\<close> module is a hidden global state. Here it is explicit: the
  generator is the sequence \<open>g\<close> of the values \<^verbatim>\<open>random.random()\<close> returns, and
  the state is the number \<open>k\<close> of values drawn so far. The library computes
  \<^verbatim>\<open>uniform(a, b)\<close> as \<^verbatim>\<open>a + (b - a) * random()\<close>.
\<close>

definition uniform :: "(nat \<Rightarrow> real) \<Rightarrow> nat \<Rightarrow> real \<Rightarrow> real \<Rightarrow> real \<times> nat" where
  "uniform g k a b = (a + (b - a) * g k, Suc k)"

text \<open>
  \<^verbatim>\<open>round(x, ndigits)\<close> on a float: the nearest multiple of \<open>10\<^sup>-\<^sup>n\<close>, a tie going
  to the even neighbour.
\<close>

definition round_half_even :: "real \<Rightarrow> int" where
  "round_half_even x =
     (let f = \<lfloor>x\<rfloor>; d = x - of_int f
      in if d < 1 / 2 then f else if d > 1 / 2 then f + 1
         else if even f then f else f + 1)"

definition py_round :: "real \<Rightarrow> nat \<Rightarrow> real" where
  "py_round x ndigits = of_int (round_half_even (x * 10 ^ ndigits)) / 10 ^ ndigits"

text \<open>
  \<^verbatim>\<open>
  def get_mock_coin_data() -> List[CoinData]:
      coins = []
      for symbol in MOCK_COINS:
          base_price = random.uniform(0.1, 50000)
          change_24h = random.uniform(-15, 15)
          volume_24h = random.uniform(1000000, 100000000)
          ema9 = base_price * random.uniform(0.98, 1.02)
          ema21 = base_price * random.uniform(0.97, 1.03)
          signal = "BUY" if ema9 > ema21 else "SELL"
          coins.append(CoinData(symbol=symbol, price=round(base_price, 6),
              change_24h=round(change_24h, 2), volume_24h=round(volume_24h, 2),
              ema9=round(ema9, 6), ema21=round(ema21, 6), signal=signal))
      return coins
  \<close>
  The loop over the symbols, with the list built so far and the generator's position
  passed along; the function returns the position it leaves the generator at.
\<close>

fun mock_coins_loop ::
  "(nat \<Rightarrow> real) \<Rightarrow> string list \<Rightarrow> nat \<Rightarrow> CoinData list \<Rightarrow> CoinData list \<times> nat" where
  "mock_coins_loop g [] k coins = (coins, k)"
| "mock_coins_loop g (symbol' # rest) k coins =
     (let (base_price, k1) = uniform g k (1 / 10) 50000;
          (change, k2) = uniform g k1 (- 15) 15;
          (volume, k3) = uniform g k2 1000000 100000000;
          (factor9, k4) = uniform g k3 (98 / 100) (102 / 100);
          e9 = base_price * factor9;
          (factor21, k5) = uniform g k4 (97 / 100) (103 / 100);
          e21 = base_price * factor21;
          sig = (if e9 > e21 then ''BUY'' else ''SELL'')
      in mock_coins_loop g rest k5
           (coins @ [\<lparr>symbol = symbol', price = py_round base_price 6,
                      change_24h = py_round change 2, volume_24h = py_round volume 2,
                      ema9 = Some (py_round e9 6), ema21 = Some (py_round e21 6),
                      signal = Some sig\<rparr>]))"

definition get_mock_coin_data :: "(nat \<Rightarrow> real) \<Rightarrow> nat \<Rightarrow> CoinData list \<times> nat" where
  "get_mock_coin_data g k = mock_coins_loop g MOCK_COINS k []"

section \<open>The connection manager\<close>

text \<open>
  A websocket is identified by a number. What a send does is the transport's business,
  not the repository's: the transport records which sockets are broken (and the
  exception a send on them raises), every send that was attempted and every message
  that was delivered. The message type is left open; the endpoint sends the list of
  coin records it serialises.
\<close>

type_synonym websocket = nat

record 'm transport =
  broken :: "websocket \<Rightarrow> py_exception option"
  attempted :: "(websocket \<times> 'm) list"
  delivered :: "(websocket \<times> 'm) list"

definition send_text ::
  "websocket \<Rightarrow> 'm \<Rightarrow> 'm transport \<Rightarrow> (py_exception + unit) \<times> 'm transport" where
  "send_text ws message t =
     (case broken t ws of
        Some e \<Rightarrow> (Inl e, t\<lparr>attempted := attempted t @ [(ws, message)]\<rparr>)
      | None \<Rightarrow> (Inr (), t\<lparr>attempted := attempted t @ [(ws, message)],
                            delivered := delivered t @ [(ws, message)]\<rparr>))"

text \<open>
  \<^verbatim>\<open>
  class ConnectionManager:
      def __init__(self):
          self.active_connections: List[WebSocket] = []
      async def connect(self, websocket):
          await websocket.accept()
          self.active_connections.append(websocket)
      def disconnect(self, websocket):
          if websocket in self.active_connections:
              self.active_connections.remove(websocket)
      async def send_personal_message(self, message, websocket):
          await websocket.send_text(message)
      async def broadcast(self, message):
          for connection in self.active_connections:
              try:
                  await connection.send_text(message)
              except:
                  pass
  \<close>
  The coroutines are modelled as run to completion: no other coroutine changes the
  list of connections while one of them is suspended in a send.
\<close>

record ConnectionManager =
  active_connections :: "websocket list"

definition init_manager :: ConnectionManager where
  "init_manager = \<lparr>active_connections = []\<rparr>"

definition connect :: "websocket \<Rightarrow> ConnectionManager \<Rightarrow> ConnectionManager" where
  "connect ws m = m\<lparr>active_connections := active_connections m @ [ws]\<rparr>"

definition disconnect :: "websocket \<Rightarrow> ConnectionManager \<Rightarrow> ConnectionManager" where
  "disconnect ws m =
     (if ws \<in> set (active_connections m)
      then m\<lparr>active_connections := remove1 ws (active_connections m)\<rparr>
      else m)"

definition send_personal_message ::
  "'m \<Rightarrow> websocket \<Rightarrow> 'm transport \<Rightarrow> (py_exception + unit) \<times> 'm transport" where
  "send_personal_message message ws t = send_text ws message t"

fun broadcast_loop :: "websocket list \<Rightarrow> 'm \<Rightarrow> 'm transport \<Rightarrow> 'm transport" where
  "broadcast_loop [] message t = t"
| "broadcast_loop (connection # rest) message t =
     (case send_text connection message t of
        (Inl e, t') \<Rightarrow> broadcast_loop rest message t'
      | (Inr u, t') \<Rightarrow> broadcast_loop rest message t')"

definition broadcast ::
  "'m \<Rightarrow> ConnectionManager \<Rightarrow> 'm transport \<Rightarrow>
   (py_exception + unit) \<times> ConnectionManager \<times> 'm transport" where
  "broadcast message m t = (Inr (), m, broadcast_loop (active_connections m) message t)"

text \<open>
  \<^verbatim>\<open>
  async def websocket_endpoint(websocket):
      await manager.connect(websocket)
      try:
          while True:
              coins_data = get_mock_coin_data()
              await manager.send_personal_message(json.dumps(...coins_data...), websocket)
              await asyncio.sleep(5)
      except WebSocketDisconnect:
          manager.disconnect(websocket)
  \<close>
  One round of the endpoint's loop. The loop goes on after a send that succeeded; a
  \<^verbatim>\<open>WebSocketDisconnect\<close> ends it with the socket taken off the list; any other
  exception leaves the handler as it is.
\<close>

datatype endpoint_status = Running | Disconnected | Raised py_exception

definition websocket_tick ::
  "websocket \<Rightarrow> (nat \<Rightarrow> real) \<Rightarrow> nat \<Rightarrow> ConnectionManager \<Rightarrow> CoinData list transport \<Rightarrow>
   endpoint_status \<times> nat \<times> ConnectionManager \<times> CoinData list transport" where
  "websocket_tick ws g k m t =
     (let (coins_data, k') = get_mock_coin_data g k
      in case send_personal_message coins_data ws t of
           (Inr u, t') \<Rightarrow> (Running, k', m, t')
         | (Inl WebSocketDisconnect, t') \<Rightarrow> (Disconnected, k', disconnect ws m, t')
         | (Inl e, t') \<Rightarrow> (Raised e, k', m, t'))"

section \<open>Notions used in the statements\<close>

text \<open>
  The weight \<^verbatim>\<open>old_wt\<close> that the smoothing loop holds when it reads the value \<open>i\<close>
  places further on, having started with the weight \<open>ow\<close>.
\<close>

fun old_wt_at :: "real \<Rightarrow> real \<Rightarrow> nat \<Rightarrow> real" where
  "old_wt_at f ow 0 = ow"
| "old_wt_at f ow (Suc i) = old_wt_at f (ow * f + 1) i"

text \<open>
  The share of the newest price in the EMA value at position \<open>t\<close> of a series smoothed
  with span \<open>s\<close>: one over the sum of the weights \<open>(1 - \<alpha>)\<^sup>i\<close> for \<open>i \<le> t\<close>, where
  \<open>\<alpha> = 2 / (s + 1)\<close>.
\<close>

definition adjusted_factor :: "int \<Rightarrow> nat \<Rightarrow> real" where
  "adjusted_factor s t = 1 / (\<Sum>i\<le>t. (1 - 2 / (real_of_int s + 1)) ^ i)"

text \<open>
  The record the loop of \<^verbatim>\<open>get_mock_coin_data\<close> appends for one symbol when the
  generator stands at position \<open>k\<close>.
\<close>

definition mock_coin :: "(nat \<Rightarrow> real) \<Rightarrow> nat \<Rightarrow> string \<Rightarrow> CoinData" where
  "mock_coin g k s =
     (let base_price = fst (uniform g k (1 / 10) 50000);
          e9 = base_price * fst (uniform g (k + 3) (98 / 100) (102 / 100));
          e21 = base_price * fst (uniform g (k + 4) (97 / 100) (103 / 100))
      in \<lparr>symbol = s, price = py_round base_price 6,
          change_24h = py_round (fst (uniform g (k + 1) (- 15) 15)) 2,
          volume_24h = py_round (fst (uniform g (k + 2) 1000000 100000000)) 2,
          ema9 = Some (py_round e9 6), ema21 = Some (py_round e21 6),
          signal = Some (if e9 > e21 then ''BUY'' else ''SELL'')\<rparr>)"

text \<open>\<^verbatim>\<open>random.random()\<close> returns a value in the half-open interval from 0 to 1.\<close>

definition unit_draws :: "(nat \<Rightarrow> real) \<Rightarrow> bool" where
  "unit_draws g \<longleftrightarrow> (\<forall>n. 0 \<le> g n \<and> g n < 1)"

definition in_ranges :: "CoinData \<Rightarrow> bool" where
  "in_ranges c \<longleftrightarrow>
     0 < price c \<and> - 15 \<le> change_24h c \<and> change_24h c \<le> 15 \<and> 0 < volume_24h c"

definition plain_signal :: "CoinData \<Rightarrow> bool" where
  "plain_signal c \<longleftrightarrow>
     (signal c = Some ''BUY'' \<or> signal c = Some ''SELL'') \<and>
     signal c \<noteq> Some ''STRONG_BUY'' \<and> signal c \<noteq> Some ''STRONG_SELL''"

section \<open>Properties of the signal\<close>

text \<open>
  C1. For all real EMA values the signal is STRONG_BUY exactly when the fast EMA is above
  the slow one now and was not above it before, STRONG_SELL exactly when it is not above
  now and was above before, and otherwise BUY when the fast EMA is above the slow one and
  SELL when it is not (equal EMAs classify as SELL).
\<close>

theorem get_trading_signal_crossover:
  "(get_trading_signal e9 e21 prev_e9 prev_e21 = ''STRONG_BUY''
      \<longleftrightarrow> e9 > e21 \<and> prev_e9 \<le> prev_e21) \<and>
   (get_trading_signal e9 e21 prev_e9 prev_e21 = ''STRONG_SELL''
      \<longleftrightarrow> e9 \<le> e21 \<and> prev_e9 > prev_e21) \<and>
   get_trading_signal e9 e21 prev_e9 prev_e21 =
     (if e9 > e21 \<and> prev_e9 \<le> prev_e21 then ''STRONG_BUY''
      else if e9 \<le> e21 \<and> prev_e9 > prev_e21 then ''STRONG_SELL''
      else if e9 > e21 then ''BUY'' else ''SELL'')"
  by (auto simp: get_trading_signal_def Let_def)

section \<open>Properties of the EMA calculation\<close>

subsection \<open>Length and errors\<close>

lemma length_ewm_loop: "length (ewm_loop f w ow vals) = length vals"
  by (induction vals arbitrary: w ow) (simp_all add: Let_def)

lemma ewm_mean_ok:
  "1 \<le> s \<Longrightarrow> \<exists>ys. ewm_mean vals s = Inr ys \<and> length ys = length vals"
  by (cases vals) (simp_all add: ewm_mean_def get_center_of_mass_def Let_def length_ewm_loop)

lemma ewm_mean_bad: "s < 1 \<Longrightarrow> ewm_mean vals s = Inl ValueError"
  by (simp add: ewm_mean_def get_center_of_mass_def)

text \<open>
  The claim C10 as it is written, "for every list of prices and every period the result
  is a list of the same length", fails for a period below 1: no list is shorter than
  such a period, so the guard does not apply, and the library rejects the span.
\<close>

theorem calculate_ema_length_counterexample:
  "\<not> (\<exists>ema. calculate_ema [100, 102] 0 = Inr ema \<and> length ema = length [100, 102 :: real])"
  by (simp add: calculate_ema_def ewm_mean_bad)

text \<open>
  C10, amended. For every list of prices and every period of at least 1,
  \<^verbatim>\<open>calculate_ema\<close> returns a list of the same length as the input; whenever the input
  is shorter than the period, that list holds only zeros: no error is signalled and the
  first price is not used as a seed.
\<close>

theorem calculate_ema_length:
  assumes "1 \<le> period"
  shows "\<exists>ema. calculate_ema prices period = Inr ema \<and> length ema = length prices \<and>
           (int (length prices) < period \<longrightarrow> ema = replicate (length prices) 0)"
  using assms ewm_mean_ok [of period prices] by (auto simp: calculate_ema_def)

theorem calculate_ema_length_witness:
  "(1::int) \<le> 9 \<and> int (length [1, 2, 3 :: real]) < 9 \<and>
   calculate_ema [1, 2, 3] 9 = Inr [0, 0, 0]"
  using calculate_ema_length [of 9 "[1, 2, 3]"] by (auto simp: numeral_3_eq_3)

lemma calculate_ema_period_below_1: "period < 1 \<Longrightarrow> calculate_ema prices period = Inl ValueError"
  by (simp add: calculate_ema_def ewm_mean_bad)

subsection \<open>The first price\<close>

text \<open>
  The claim C2 as it is written, "for a history of the single price \<open>p\<close> the fast and
  the slow EMA both equal \<open>p\<close>", fails: a history of one price is shorter than the
  periods 9 and 21, and the guard answers with a zero.
\<close>

theorem calculate_ema_single_counterexample:
  "\<not> (calculate_ema [100] 9 = Inr [100] \<and> calculate_ema [100] 21 = Inr [100])"
  by (simp add: calculate_ema_def)

text \<open>
  C2, amended. For a history of the single price \<open>p\<close>, \<^verbatim>\<open>calculate_ema\<close> returns
  the list holding 0 for every period above 1 (so for the fast period 9 and the slow
  period 21 both EMAs are 0, not \<open>p\<close>); it returns the list holding \<open>p\<close> only for the
  period 1, and raises \<^verbatim>\<open>ValueError\<close> for a period below 1.
\<close>

theorem calculate_ema_single:
  "calculate_ema [p] period =
     (if 1 < period then Inr [0] else if period = 1 then Inr [p] else Inl ValueError)"
  by (auto simp: calculate_ema_def ewm_mean_def get_center_of_mass_def)

text \<open>
  A history that is as long as the period does start from its first price.
\<close>

lemma calculate_ema_first:
  assumes "1 \<le> period" and "period \<le> int (length (p # prices))"
  shows "\<exists>ema. calculate_ema (p # prices) period = Inr (p # ema)"
  using assms by (simp add: calculate_ema_def ewm_mean_def get_center_of_mass_def Let_def)

subsection \<open>No validation of prices\<close>

text \<open>
  The claim C4 as it is written, "a non-positive price is rejected with an InvalidInput
  error", fails: a negative price is smoothed like any other, and a history shorter than
  the period gives zeros whatever its prices are.
\<close>

theorem no_validation_counterexample:
  "calculate_ema [- 5] 1 = Inr [- 5] \<and> calculate_ema [0, - 3] 9 = Inr [0, 0]"
  by (simp add: calculate_ema_def ewm_mean_def get_center_of_mass_def)

text \<open>
  C4, amended. The signal computation does not validate prices: whether
  \<^verbatim>\<open>calculate_ema\<close> raises depends on the period alone (it raises, a \<^verbatim>\<open>ValueError\<close>,
  exactly when the period is below 1) and never on the prices, so a non-positive price
  is accepted; \<^verbatim>\<open>get_trading_signal\<close> returns one of the four signals for all
  arguments. Both are functions of their arguments only: they keep no per-symbol state
  that a call could change.
\<close>

theorem no_validation:
  "(isl (calculate_ema prices period) \<longleftrightarrow> period < 1) \<and>
   get_trading_signal a b c d \<in> {''BUY'', ''SELL'', ''STRONG_BUY'', ''STRONG_SELL''}"
proof (cases "period < 1")
  case True
  then show ?thesis
    by (simp add: calculate_ema_def ewm_mean_bad get_trading_signal_def Let_def)
next
  case False
  then obtain ys where "ewm_mean prices period = Inr ys"
    using ewm_mean_ok [of period prices] by auto
  with False show ?thesis
    by (simp add: calculate_ema_def get_trading_signal_def Let_def)
qed

subsection \<open>The recurrence between consecutive values\<close>

lemma old_wt_at_pos: "0 \<le> f \<Longrightarrow> 0 < ow \<Longrightarrow> 0 < old_wt_at f ow i"
proof (induction i arbitrary: ow)
  case 0
  then show ?case by simp
next
  case (Suc i)
  have "0 < ow * f + 1" using Suc.prems by (simp add: add_nonneg_pos)
  with Suc show ?case by simp
qed

lemma old_wt_at_Suc: "old_wt_at f ow (Suc t) = old_wt_at f ow t * f + 1"
  by (induction t arbitrary: ow) simp_all

lemma geometric_shift: "(\<Sum>i\<le>Suc t. f ^ i) = (\<Sum>i\<le>t. f ^ i) * f + (1::real)"
proof -
  have "(\<Sum>i\<le>Suc t. f ^ i) = f ^ 0 + (\<Sum>i\<le>t. f ^ Suc i)"
    by (rule sum.atMost_Suc_shift)
  also have "(\<Sum>i\<le>t. f ^ Suc i) = f * (\<Sum>i\<le>t. f ^ i)"
    by (simp add: sum_distrib_left)
  finally show ?thesis by (simp add: mult.commute)
qed

text \<open>Started with the weight 1, the loop holds the sum of the weights so far.\<close>

lemma old_wt_at_1: "old_wt_at f 1 t = (\<Sum>i\<le>t. f ^ i)"
proof (induction t)
  case 0
  show ?case by simp
next
  case (Suc t)
  have "old_wt_at f 1 (Suc t) = old_wt_at f 1 t * f + 1" by (rule old_wt_at_Suc)
  also have "\<dots> = (\<Sum>i\<le>t. f ^ i) * f + 1" by (simp only: Suc.IH)
  also have "\<dots> = (\<Sum>i\<le>Suc t. f ^ i)" by (simp only: geometric_shift)
  finally show ?case .
qed

text \<open>
  One round of the loop: the new value is the weighted mean of the value before it and
  the price read, whether or not the two are equal.
\<close>

lemma ewm_loop_step:
  assumes "0 \<le> f" "0 < ow" "i < length vals"
  shows "(w # ewm_loop f w ow vals) ! Suc i =
           (old_wt_at f ow i * f * ((w # ewm_loop f w ow vals) ! i) + vals ! i) /
           (old_wt_at f ow i * f + 1)"
  using assms
proof (induction vals arbitrary: w ow i)
  case Nil
  then show ?case by simp
next
  case (Cons cur vals)
  have pos: "0 < ow * f + 1" using Cons.prems by (simp add: add_nonneg_pos)
  define w1 where "w1 = (if w \<noteq> cur then (ow * f * w + 1 * cur) / (ow * f + 1) else w)"
  have unfold: "ewm_loop f w ow (cur # vals) = w1 # ewm_loop f w1 (ow * f + 1) vals"
    by (simp add: Let_def w1_def)
  have w1: "w1 = (ow * f * w + cur) / (ow * f + 1)"
  proof (cases "w = cur")
    case True
    have "ow * f * cur + cur = cur * (ow * f + 1)" by (simp add: algebra_simps)
    then have "(ow * f * cur + cur) / (ow * f + 1) = cur" using pos by simp
    with True show ?thesis by (simp add: w1_def)
  next
    case False
    then show ?thesis by (simp add: w1_def)
  qed
  show ?case
  proof (cases i)
    case 0
    then show ?thesis by (simp add: unfold w1 del: ewm_loop.simps)
  next
    case (Suc j)
    with Cons.prems have "j < length vals" by simp
    from Cons.IH [OF Cons.prems(1) pos this, of w1]
    show ?thesis by (simp add: unfold Suc del: ewm_loop.simps)
  qed
qed

text \<open>
  The claim C3 as it is written, \<open>ema2 = \<alpha> * p2 + (1 - \<alpha>) * ema1\<close> with
  \<open>\<alpha> = 2 / (s + 1)\<close> for every pair of consecutive prices and every span, fails twice
  over. With the span 2 the prices 4, 8 give the values 4, 7, and 7 is not
  \<open>2/3 * 8 + 1/3 * 4\<close>. With the span 9 the prices 100, 102 are too few, both values
  are 0, and 0 is not \<open>2/10 * 102\<close>.
\<close>

theorem calculate_ema_recurrence_counterexample:
  "\<not> (\<exists>e1 e2. calculate_ema [4, 8] 2 = Inr [e1, e2] \<and>
         e2 = 2 / (2 + 1) * 8 + (1 - 2 / (2 + 1)) * e1) \<and>
   \<not> (\<exists>e1 e2. calculate_ema [100, 102] 9 = Inr [e1, e2] \<and>
         e2 = 2 / (9 + 1) * 102 + (1 - 2 / (9 + 1)) * e1)"
  by (simp add: calculate_ema_def ewm_mean_def get_center_of_mass_def)

text \<open>
  C3, amended. For a span \<open>s\<close> of at least 1 and a history of at least \<open>s\<close> prices,
  consecutive EMA values satisfy \<open>ema (t + 1) = a * p (t + 1) + (1 - a) * ema t\<close>, where
  the factor \<open>a\<close> is not the constant \<open>\<alpha> = 2 / (s + 1)\<close> but depends on the position:
  \<open>a = 1 / (1 + (1 - \<alpha>) + \<dots> + (1 - \<alpha>)\<^bsup>t + 1\<^esup>)\<close>, the weights of the library's
  default, adjusted mean.
\<close>

theorem calculate_ema_recurrence:
  assumes "1 \<le> s" and "s \<le> int (length prices)" and "Suc t < length prices"
    and "calculate_ema prices s = Inr ema"
  shows "ema ! Suc t =
           adjusted_factor s (Suc t) * prices ! Suc t + (1 - adjusted_factor s (Suc t)) * ema ! t"
proof -
  define f where "f = 1 - 2 / (real_of_int s + 1)"
  have f0: "0 \<le> f" using assms(1) by (simp add: f_def field_simps)
  obtain v rest where prices: "prices = v # rest"
    using assms(3) by (cases prices) auto
  have alpha: "1 - 1 / (1 + (real_of_int s - 1) / 2) = f"
    using assms(1) by (simp add: f_def field_simps)
  have ema: "ema = v # ewm_loop f v 1 rest"
    using assms(1,2,4) alpha
    by (simp add: calculate_ema_def ewm_mean_def get_center_of_mass_def prices Let_def)
  have t: "t < length rest" using assms(3) prices by simp
  define S where "S = (\<Sum>i\<le>Suc t. f ^ i)"
  have S: "old_wt_at f 1 t * f = S - 1"
    by (simp add: S_def old_wt_at_1 geometric_shift del: sum.atMost_Suc)
  have "0 < old_wt_at f 1 t * f + 1"
    using old_wt_at_pos [of f 1 t] f0 by (simp add: add_nonneg_pos)
  then have Spos: "0 < S" by (simp add: S)
  have "ema ! Suc t = (old_wt_at f 1 t * f * (ema ! t) + rest ! t) / (old_wt_at f 1 t * f + 1)"
    unfolding ema using ewm_loop_step [OF f0 _ t, of 1 v] by simp
  also have "\<dots> = ((S - 1) * (ema ! t) + rest ! t) / S"
    by (simp add: S)
  also have "\<dots> = (1 / S) * rest ! t + (1 - 1 / S) * ema ! t"
    using Spos by (simp add: field_simps)
  finally show ?thesis
    by (simp add: adjusted_factor_def S_def f_def prices del: sum.atMost_Suc)
qed

theorem calculate_ema_recurrence_witness:
  "(1::int) \<le> 2 \<and> 2 \<le> int (length [4, 8 :: real]) \<and> Suc 0 < length [4, 8 :: real] \<and>
   calculate_ema [4, 8] 2 = Inr [4, 7] \<and> adjusted_factor 2 (Suc 0) = 3 / 4 \<and>
   [4, 7 :: real] ! Suc 0 =
     adjusted_factor 2 (Suc 0) * [4, 8] ! Suc 0 + (1 - adjusted_factor 2 (Suc 0)) * [4, 7] ! 0"
  using calculate_ema_recurrence [of 2 "[4, 8]" 0 "[4, 7]"]
  by (simp add: calculate_ema_def ewm_mean_def get_center_of_mass_def adjusted_factor_def)

text \<open>For two prices, written out.\<close>

lemma calculate_ema_pair:
  "calculate_ema [p1, p2] s =
     (if 2 < s then Inr [0, 0]
      else if s < 1 then Inl ValueError
      else Inr [p1, adjusted_factor s 1 * p2 + (1 - adjusted_factor s 1) * p1])"
proof (cases "1 \<le> s \<and> s \<le> 2")
  case False
  then show ?thesis
    by (auto simp: calculate_ema_def ewm_mean_bad)
next
  case True
  then obtain ema where ema: "calculate_ema [p1, p2] s = Inr ema" "length ema = 2"
    using ewm_mean_ok [of s "[p1, p2]"] by (auto simp: calculate_ema_def)
  have first: "ema ! 0 = p1"
    using True ema(1)
    by (auto simp: calculate_ema_def ewm_mean_def get_center_of_mass_def Let_def)
  have "ema ! Suc 0 = adjusted_factor s (Suc 0) * [p1, p2] ! Suc 0 +
          (1 - adjusted_factor s (Suc 0)) * ema ! 0"
  proof -
    define f where "f = 1 - 2 / (real_of_int s + 1)"
    have f0: "0 \<le> f" using True by (simp add: f_def field_simps)
    have alpha: "1 - 1 / (1 + (real_of_int s - 1) / 2) = f"
      using True by (simp add: f_def field_simps)
    have e: "ema = p1 # ewm_loop f p1 1 [p2]"
      using True ema(1) alpha
      by (simp add: calculate_ema_def ewm_mean_def get_center_of_mass_def Let_def
          del: ewm_loop.simps)
    have "0 < f + 1" using f0 by simp
    have "ema ! Suc 0 = (f * p1 + p2) / (f + 1)"
      unfolding e using ewm_loop_step [of f 1 0 "[p2]" p1] f0 by simp
    also have "\<dots> = 1 / (1 + f) * p2 + (1 - 1 / (1 + f)) * p1"
    proof -
      have "1 - 1 / (1 + f) = f / (1 + f)"
        using \<open>0 < f + 1\<close> by (simp add: field_simps)
      then show ?thesis
        by (simp add: add_divide_distrib add.commute)
    qed
    finally show ?thesis
      by (simp add: adjusted_factor_def f_def first)
  qed
  moreover have "ema = [ema ! 0, ema ! Suc 0]"
    using ema(2) by (cases ema; cases "tl ema") auto
  ultimately show ?thesis
    using True ema(1) first by (auto simp: )
qed

section \<open>Properties of the mock market data\<close>

lemma round_half_even_bounds: "\<lfloor>x\<rfloor> \<le> round_half_even x \<and> round_half_even x \<le> \<lceil>x\<rceil>"
proof -
  have "x - of_int \<lfloor>x\<rfloor> > 0 \<Longrightarrow> \<lfloor>x\<rfloor> + 1 \<le> \<lceil>x\<rceil>"
    by linarith
  then show ?thesis
    by (auto simp: round_half_even_def Let_def)
qed

text \<open>Rounding does not cross a value that has no more digits than are kept.\<close>

lemma py_round_lower:
  assumes "of_int m / 10 ^ n \<le> x"
  shows "of_int m / 10 ^ n \<le> py_round x n"
proof -
  have "of_int m \<le> x * 10 ^ n" using assms by (simp add: field_simps)
  then have "m \<le> \<lfloor>x * 10 ^ n\<rfloor>" by (simp add: le_floor_iff)
  also have "\<dots> \<le> round_half_even (x * 10 ^ n)"
    using round_half_even_bounds by blast
  finally have "(of_int m :: real) \<le> of_int (round_half_even (x * 10 ^ n))" by simp
  then show ?thesis by (simp add: py_round_def divide_right_mono)
qed

lemma py_round_upper:
  assumes "x \<le> of_int m / 10 ^ n"
  shows "py_round x n \<le> of_int m / 10 ^ n"
proof -
  have "x * 10 ^ n \<le> of_int m" using assms by (simp add: field_simps)
  then have "\<lceil>x * 10 ^ n\<rceil> \<le> m" by (simp add: ceiling_le_iff)
  moreover have "round_half_even (x * 10 ^ n) \<le> \<lceil>x * 10 ^ n\<rceil>"
    using round_half_even_bounds by blast
  ultimately have "(of_int (round_half_even (x * 10 ^ n)) :: real) \<le> of_int m" by simp
  then show ?thesis by (simp add: py_round_def divide_right_mono)
qed

lemma uniform_range:
  assumes "0 \<le> g k" "g k < 1" "a \<le> b"
  shows "a \<le> fst (uniform g k a b) \<and> fst (uniform g k a b) \<le> b"
proof -
  have "0 \<le> (b - a) * g k" using assms by simp
  moreover have "(b - a) * g k \<le> (b - a) * 1"
    using assms by (intro mult_left_mono) simp_all
  ultimately show ?thesis by (simp add: uniform_def)
qed

lemma snd_uniform: "snd (uniform g k a b) = Suc k"
  by (simp add: uniform_def)

lemma uniform_const: "fst (uniform g k a b) = fst (uniform (\<lambda>_. g k) 0 a b)"
  by (simp add: uniform_def)

lemma price_in_range:
  assumes "0 \<le> u" "u < 1"
  shows "0 < py_round (fst (uniform (\<lambda>_. u) 0 (1 / 10) 50000)) 6"
proof -
  have "1 / 10 \<le> fst (uniform (\<lambda>_. u) 0 (1 / 10) 50000)"
    using uniform_range [of "\<lambda>_. u" 0 "1 / 10" 50000] assms by simp
  then have "of_int 100000 / 10 ^ 6 \<le> fst (uniform (\<lambda>_. u) 0 (1 / 10) 50000)" by simp
  then have "of_int 100000 / 10 ^ 6 \<le> py_round (fst (uniform (\<lambda>_. u) 0 (1 / 10) 50000)) 6"
    by (rule py_round_lower)
  then show ?thesis by simp
qed

lemma change_in_range:
  assumes "0 \<le> u" "u < 1"
  shows "- 15 \<le> py_round (fst (uniform (\<lambda>_. u) 0 (- 15) 15)) 2 \<and>
         py_round (fst (uniform (\<lambda>_. u) 0 (- 15) 15)) 2 \<le> 15"
proof -
  let ?c = "fst (uniform (\<lambda>_. u) 0 (- 15) 15)"
  have r: "- 15 \<le> ?c \<and> ?c \<le> 15"
    using uniform_range [of "\<lambda>_. u" 0 "- 15" 15] assms by simp
  from r have "of_int (- 1500) / 10 ^ 2 \<le> ?c" by simp
  then have lo: "of_int (- 1500) / 10 ^ 2 \<le> py_round ?c 2" by (rule py_round_lower)
  from r have "?c \<le> of_int 1500 / 10 ^ 2" by simp
  then have hi: "py_round ?c 2 \<le> of_int 1500 / 10 ^ 2" by (rule py_round_upper)
  from lo hi show ?thesis by simp
qed

lemma volume_in_range:
  assumes "0 \<le> u" "u < 1"
  shows "0 < py_round (fst (uniform (\<lambda>_. u) 0 1000000 100000000)) 2"
proof -
  let ?v = "fst (uniform (\<lambda>_. u) 0 1000000 100000000)"
  have "1000000 \<le> ?v"
    using uniform_range [of "\<lambda>_. u" 0 1000000 100000000] assms by simp
  then have "of_int 100000000 / 10 ^ 2 \<le> ?v" by simp
  then have "of_int 100000000 / 10 ^ 2 \<le> py_round ?v 2" by (rule py_round_lower)
  then show ?thesis by simp
qed

text \<open>The loop appends one record per symbol and draws five values for it.\<close>

lemma mock_coins_loop_Cons:
  "mock_coins_loop g (s # rest) k coins =
     mock_coins_loop g rest (k + 5) (coins @ [mock_coin g k s])"
  by (simp add: mock_coin_def Let_def case_prod_beta snd_uniform eval_nat_numeral)

lemma mock_coins_loop_append:
  "mock_coins_loop g syms k coins =
     (coins @ map (\<lambda>i. mock_coin g (k + 5 * i) (syms ! i)) [0..<length syms],
      k + 5 * length syms)"
proof (induction syms arbitrary: k coins)
  case Nil
  show ?case by simp
next
  case (Cons s rest)
  have "map (\<lambda>i. mock_coin g (k + 5 * i) ((s # rest) ! i)) [0..<length (s # rest)] =
        mock_coin g k s # map (\<lambda>i. mock_coin g (k + 5 + 5 * i) (rest ! i)) [0..<length rest]"
    by (simp add: upt_conv_Cons map_Suc_upt [symmetric] add.assoc del: upt_Suc)
  then show ?case
    by (simp only: mock_coins_loop_Cons Cons.IH) simp
qed

lemma symbol_mock_coin: "symbol (mock_coin g k s) = s"
  by (simp add: mock_coin_def Let_def)

lemma plain_signal_mock_coin: "plain_signal (mock_coin g k s)"
  by (simp add: mock_coin_def Let_def plain_signal_def)

lemma in_ranges_mock_coin:
  assumes "unit_draws g"
  shows "in_ranges (mock_coin g k s)"
proof -
  from assms have u: "\<And>n. 0 \<le> g n" "\<And>n. g n < 1" by (simp_all add: unit_draws_def)
  have "0 < py_round (fst (uniform g k (1 / 10) 50000)) 6"
    using price_in_range [OF u(1) u(2), of k] by (simp only: uniform_const [of g])
  moreover have "- 15 \<le> py_round (fst (uniform g (k + 1) (- 15) 15)) 2 \<and>
         py_round (fst (uniform g (k + 1) (- 15) 15)) 2 \<le> 15"
    using change_in_range [OF u(1) u(2), of "k + 1"] by (simp only: uniform_const [of g])
  moreover have "0 < py_round (fst (uniform g (k + 2) 1000000 100000000)) 2"
    using volume_in_range [OF u(1) u(2), of "k + 2"] by (simp only: uniform_const [of g])
  ultimately show ?thesis
    by (simp add: in_ranges_def mock_coin_def Let_def)
qed

text \<open>
  C7. Every snapshot lists its records in the fixed order of \<^verbatim>\<open>MOCK_COINS\<close>, whatever
  the generator yields and wherever it stands: any two ticks list the same symbols in
  the same order.
\<close>

theorem snapshot_order:
  "map symbol (fst (get_mock_coin_data g k)) = MOCK_COINS \<and>
   map symbol (fst (get_mock_coin_data g' k')) = map symbol (fst (get_mock_coin_data g k))"
  by (simp add: get_mock_coin_data_def mock_coins_loop_append symbol_mock_coin o_def map_nth)

text \<open>
  C8. Every record of the mock data lies in the configured ranges: the price is
  strictly positive, the 24h change lies between -15 and 15, and the 24h volume is
  strictly positive. The generator is assumed to yield values from 0 up to, but not
  including, 1, as \<^verbatim>\<open>random.random()\<close> does.
\<close>

theorem mock_data_in_ranges:
  assumes "unit_draws g"
  shows "list_all in_ranges (fst (get_mock_coin_data g k))"
  using assms
  by (simp add: get_mock_coin_data_def mock_coins_loop_append list_all_iff in_ranges_mock_coin)

theorem mock_data_in_ranges_witness:
  "unit_draws (\<lambda>n. 1 / 2) \<and> list_all in_ranges (fst (get_mock_coin_data (\<lambda>n. 1 / 2) 0))"
  using mock_data_in_ranges [of "\<lambda>n. 1 / 2" 0] by (simp add: unit_draws_def)

text \<open>
  C9. Every record of the mock data carries the signal BUY or SELL; STRONG_BUY and
  STRONG_SELL never occur, since the signal is taken from the current pair of EMA
  values alone.
\<close>

theorem mock_data_signal_plain: "list_all plain_signal (fst (get_mock_coin_data g k))"
  by (simp add: get_mock_coin_data_def mock_coins_loop_append list_all_iff plain_signal_mock_coin)

section \<open>Properties of the connection manager\<close>

lemma broadcast_loop_log:
  "broadcast_loop conns message t =
     t\<lparr>attempted := attempted t @ map (\<lambda>c. (c, message)) conns,
       delivered := delivered t @ map (\<lambda>c. (c, message)) (filter (\<lambda>c. broken t c = None) conns)\<rparr>"
proof (induction conns arbitrary: t)
  case Nil
  show ?case by simp
next
  case (Cons c conns)
  show ?case
  proof (cases "broken t c")
    case None
    then show ?thesis by (simp add: send_text_def Cons.IH)
  next
    case (Some e)
    then show ?thesis by (simp add: send_text_def Cons.IH)
  qed
qed

text \<open>
  C5. For every list of subscribers, every message and every set of broken sockets, a
  broadcast returns without raising, and it has attempted a send to every subscriber
  of the list, in order; every subscriber whose socket is not broken has been
  delivered the message, whatever happened to the sends before it.
\<close>

theorem broadcast_attempts_every_subscriber:
  "broadcast message m t =
     (Inr (), m,
      t\<lparr>attempted := attempted t @ map (\<lambda>c. (c, message)) (active_connections m),
        delivered := delivered t @
          map (\<lambda>c. (c, message)) (filter (\<lambda>c. broken t c = None) (active_connections m))\<rparr>)"
  by (simp add: broadcast_def broadcast_loop_log)

text \<open>
  C6. The claim is that a subscriber whose send failed is taken off the list of active
  connections. \<^verbatim>\<open>broadcast\<close> does not do so: with the subscribers 1 and 2, the
  socket of 1 broken, both sends are attempted, 2 receives the message, and the list
  still holds 1 afterwards.
\<close>

theorem broadcast_keeps_failed_subscriber:
  "broadcast ''snapshot'' \<lparr>active_connections = [1, 2]\<rparr>
     \<lparr>broken = (\<lambda>ws. if ws = 1 then Some RuntimeError else None),
      attempted = [], delivered = []\<rparr> =
   (Inr (), \<lparr>active_connections = [1, 2]\<rparr>,
    \<lparr>broken = (\<lambda>ws. if ws = 1 then Some RuntimeError else None),
     attempted = [(1, ''snapshot''), (2, ''snapshot'')], delivered = [(2, ''snapshot'')]\<rparr>)"
  by (simp add: broadcast_def send_text_def)

lemma broadcast_never_deregisters: "fst (snd (broadcast message m t)) = m"
  by (simp add: broadcast_def)

text \<open>
  The endpoint's own loop does take the socket off the list, when the send raises
  \<^verbatim>\<open>WebSocketDisconnect\<close>; after any other exception the socket stays listed.
\<close>

lemma websocket_tick_disconnect:
  assumes "broken t ws = Some WebSocketDisconnect" "distinct (active_connections m)"
  shows "fst (websocket_tick ws g k m t) = Disconnected \<and>
         ws \<notin> set (active_connections (fst (snd (snd (websocket_tick ws g k m t)))))"
  using assms
  by (simp add: websocket_tick_def send_personal_message_def send_text_def disconnect_def
      case_prod_beta)

lemma websocket_tick_other_exception:
  assumes "broken t ws = Some RuntimeError"
  shows "fst (websocket_tick ws g k m t) = Raised RuntimeError \<and>
         fst (snd (snd (websocket_tick ws g k m t))) = m"
  using assms
  by (simp add: websocket_tick_def send_personal_message_def send_text_def case_prod_beta)

text \<open>What a round of the endpoint sends is the list \<^verbatim>\<open>get_mock_coin_data\<close> returned.\<close>

lemma websocket_tick_snapshot:
  assumes "broken t ws = None"
  shows "websocket_tick ws g k m t =
           (Running, snd (get_mock_coin_data g k), m,
            t\<lparr>attempted := attempted t @ [(ws, fst (get_mock_coin_data g k))],
              delivered := delivered t @ [(ws, fst (get_mock_coin_data g k))]\<rparr>)"
  using assms
  by (simp add: websocket_tick_def send_personal_message_def send_text_def case_prod_beta)

lemma connect_disconnect: "disconnect ws (connect ws init_manager) = init_manager"
  by (simp add: connect_def disconnect_def init_manager_def)

end
